theory Spec2Isabelle
  imports Main "HOL-Library.Word"
begin

section \<open>The EPUB upload service (main.go)\<close>

text \<open>
  The service has one source file. Its core is \<^verbatim>\<open>uploadHandler\<close>, a linear pipeline:
  method check, API key check, size-limited multipart decoding, extension check, name
  derivation, file creation, streaming copy with clean-up, JSON success response.

  The handler is embedded as a pure function from an environment (clock and storage
  faults), a world (the files on disk, the log, whether the request body was handed to
  the decoder), a request and the configured key, to a response and the new world.
  The Go standard library calls the handler makes are modelled next to it, each under the
  name it has in the source.
\<close>

subsection \<open>Constants\<close>

definition UPLOAD_DIR :: string where
  "UPLOAD_DIR = ''/app/uploads''"

definition MAX_FILE_SIZE :: nat where
  \<comment> \<open>\<^verbatim>\<open>50 << 20\<close>\<close>
  "MAX_FILE_SIZE = push_bit 20 50"

definition MethodPost :: string where
  "MethodPost = ''POST''"

definition StatusOK :: nat where "StatusOK = 200"
definition StatusBadRequest :: nat where "StatusBadRequest = 400"
definition StatusUnauthorized :: nat where "StatusUnauthorized = 401"
definition StatusMethodNotAllowed :: nat where "StatusMethodNotAllowed = 405"
definition StatusInternalServerError :: nat where "StatusInternalServerError = 500"

subsection \<open>Data\<close>

type_synonym byte = "8 word"

text \<open>
  One part of a multipart message as the client sent it: the field name and the file
  name declared in its \<^verbatim>\<open>Content-Disposition\<close> header (empty when the header has
  none), and the bytes of the part.
\<close>

record part =
  FormName :: string
  declared_filename :: string
  part_content :: "byte list"

text \<open>
  One file of a decoded form, as \<^verbatim>\<open>r.FormFile\<close> hands it to the handler: the field it
  came in, \<^verbatim>\<open>header.Filename\<close>, and the bytes of the file.
\<close>

record upload_file =
  field :: string
  Filename :: string
  content :: "byte list"

text \<open>
  The request body as the multipart decoder sees it, with the total number of bytes the
  client sends kept beside it in the request (\<open>body_len\<close>). \<open>Invalid\<close> is a body that
  the decoder rejects whatever the ceiling: not multipart form data, broken framing, or
  more parts or headers than the decoder takes. \<open>FormData n ps\<close> is a body that starts
  with a well-formed multipart message holding the parts \<open>ps\<close> in order, where \<open>n\<close> is
  the number of bytes of the body up to the end of the line that holds the closing
  boundary, its line break included when the body goes on after it. The decoder of
  \<^verbatim>\<open>mime/multipart\<close> reads part after part, reads the line of the closing boundary
  (\<^verbatim>\<open>NextPart\<close> returns \<^verbatim>\<open>io.EOF\<close> there and \<^verbatim>\<open>ReadForm\<close> ends its loop), and
  needs no byte of the body after that line.
\<close>

datatype body = Invalid | FormData nat "part list"

text \<open>
  A request: the method, the values of the well-formed pairs of the query string
  (\<^verbatim>\<open>r.URL.Query()\<close> drops a malformed pair silently), whether the query string has a
  malformed pair (\<^verbatim>\<open>url.ParseQuery\<close> reports it as an error), and the body.
\<close>

record request =
  Method :: string
  query :: "string \<Rightarrow> string list option"
  query_error :: bool
  body_len :: nat
  body :: body

text \<open>
  In a request that can arrive, the multipart message lies within the body, and the
  parts it carries lie within the message.
\<close>

definition wf_request :: "request \<Rightarrow> bool" where
  "wf_request r =
     (case body r of
        Invalid \<Rightarrow> True
      | FormData n ps \<Rightarrow>
          n \<le> body_len r \<and> sum_list (map (\<lambda>p. length (part_content p)) ps) \<le> n)"

record response =
  status :: nat
  content_type :: string
  payload :: string

datatype log_event =
    LogCreateFailed
  | LogCopyFailed
  | LogUploaded string nat

record world =
  files :: "string \<Rightarrow> byte list option"
  body_decoded :: bool
  log :: "log_event list"

text \<open>Broken-down wall-clock time, the fields \<^verbatim>\<open>Time.Format\<close> prints.\<close>

record time =
  year :: nat
  month :: nat
  day :: nat
  hour :: nat
  minute :: nat
  second :: nat

text \<open>
  What the handler cannot control: the clock reading of \<^verbatim>\<open>time.Now()\<close>, whether
  \<^verbatim>\<open>os.Create\<close> fails for a path, after how many bytes \<^verbatim>\<open>io.Copy\<close> breaks (if it
  does), and whether \<^verbatim>\<open>os.Remove\<close> fails.
\<close>

record env =
  now :: time
  create_fails :: "string \<Rightarrow> bool"
  copy_fault :: "nat option"
  remove_fails :: bool

subsection \<open>Decimal printing (\<^verbatim>\<open>%d\<close>, and the digits of a time stamp)\<close>

definition digit_char :: "nat \<Rightarrow> char" where
  "digit_char d = ''0123456789'' ! d"

definition is_digit :: "char \<Rightarrow> bool" where
  "is_digit c = (48 \<le> (of_char c :: nat) \<and> (of_char c :: nat) \<le> 57)"

function itoa :: "nat \<Rightarrow> string" where
  "itoa n = (if n < 10 then [digit_char n] else itoa (n div 10) @ [digit_char (n mod 10)])"
  by pat_completeness auto
termination
  by (relation "measure id") auto

declare itoa.simps [simp del]

text \<open>Go's \<^verbatim>\<open>appendInt(b, x, width)\<close>: decimal digits, padded with zeros up to the width.\<close>

definition zero_pad :: "nat \<Rightarrow> nat \<Rightarrow> string" where
  "zero_pad width n = replicate (width - length (itoa n)) (CHR ''0'') @ itoa n"

text \<open>Reading a decimal numeral back, most significant digit first.\<close>

definition atoi :: "string \<Rightarrow> nat" where
  "atoi s = foldl (\<lambda>acc c. 10 * acc + ((of_char c :: nat) - 48)) 0 s"

subsection \<open>\<^verbatim>\<open>time.Now().Format("20060102_150405")\<close>\<close>

definition Format :: "time \<Rightarrow> string" where
  "Format t =
     zero_pad 4 (year t) @ zero_pad 2 (month t) @ zero_pad 2 (day t) @ ''_'' @
     zero_pad 2 (hour t) @ zero_pad 2 (minute t) @ zero_pad 2 (second t)"

text \<open>The readings a clock can give: four-digit years, and fields in their ranges.\<close>

definition valid_time :: "time \<Rightarrow> bool" where
  "valid_time t =
     (year t \<le> 9999 \<and> 1 \<le> month t \<and> month t \<le> 12 \<and> 1 \<le> day t \<and> day t \<le> 31 \<and>
      hour t \<le> 23 \<and> minute t \<le> 59 \<and> second t \<le> 59)"

text \<open>The pattern \<^verbatim>\<open>\d{8}_\d{6}\<close>.\<close>

definition stamp_pattern :: "string \<Rightarrow> bool" where
  "stamp_pattern s =
     (length s = 15 \<and> list_all is_digit (take 8 s) \<and> s ! 8 = CHR ''_'' \<and>
      list_all is_digit (drop 9 s))"

subsection \<open>\<^verbatim>\<open>strings.ToLower\<close> and \<^verbatim>\<open>strings.HasSuffix\<close>\<close>

text \<open>
  Strings are byte sequences. \<open>ToLower\<close> maps the bytes \<^verbatim>\<open>A\<close> to \<^verbatim>\<open>Z\<close> to lower case
  and leaves every other byte alone. (Go lowers non-ASCII letters too; no such letter
  lowers to a character of \<^verbatim>\<open>.epub\<close>, so the suffix test below is decided by the bytes.)
\<close>

definition lower_char :: "char \<Rightarrow> char" where
  "lower_char c =
     (if 65 \<le> (of_char c :: nat) \<and> (of_char c :: nat) \<le> 90
      then char_of ((of_char c :: nat) + 32) else c)"

definition ToLower :: "string \<Rightarrow> string" where
  "ToLower s = map lower_char s"

definition HasSuffix :: "string \<Rightarrow> string \<Rightarrow> bool" where
  "HasSuffix s suffix =
     (length suffix \<le> length s \<and> drop (length s - length suffix) s = suffix)"

subsection \<open>\<^verbatim>\<open>filepath.Base\<close>, \<^verbatim>\<open>filepath.Clean\<close>, \<^verbatim>\<open>filepath.Join\<close> (Unix)\<close>

definition is_sep :: "char \<Rightarrow> bool" where
  "is_sep c = (c = CHR ''/'')"

text \<open>
  \<^verbatim>\<open>Base\<close>: the empty path gives \<^verbatim>\<open>.\<close>; trailing separators are dropped; what follows
  the last separator is returned, and \<^verbatim>\<open>/\<close> if nothing is left.
\<close>

definition Base :: "string \<Rightarrow> string" where
  "Base path =
     (if path = [] then ''.''
      else
        let stripped = rev (dropWhile is_sep (rev path));
            elem = rev (takeWhile (\<lambda>c. \<not> is_sep c) (rev stripped))
        in if elem = [] then ''/'' else elem)"

text \<open>\<^verbatim>\<open>strings.Split(s, "/")\<close> and \<^verbatim>\<open>strings.Join(elems, "/")\<close>.\<close>

fun split_slash :: "string \<Rightarrow> string list" where
  "split_slash [] = [[]]"
| "split_slash (c # cs) =
     (if is_sep c then [] # split_slash cs
      else (case split_slash cs of
              [] \<Rightarrow> [[c]]
            | e # es \<Rightarrow> (c # e) # es))"

fun join_slash :: "string list \<Rightarrow> string" where
  "join_slash [] = []"
| "join_slash [e] = e"
| "join_slash (e # es) = e @ ''/'' @ join_slash es"

text \<open>
  \<^verbatim>\<open>Clean\<close> works through the elements of the path: empty elements and \<^verbatim>\<open>.\<close> are
  skipped, \<^verbatim>\<open>..\<close> removes the element before it (at the root it is dropped; in a
  relative path with nothing to remove it is kept), any other element is appended.
\<close>

fun clean_elems :: "bool \<Rightarrow> string list \<Rightarrow> string list \<Rightarrow> string list" where
  "clean_elems rooted out [] = out"
| "clean_elems rooted out (e # es) =
     (if e = [] \<or> e = ''.'' then clean_elems rooted out es
      else if e = ''..'' then
        (if out \<noteq> [] \<and> last out \<noteq> ''..'' then clean_elems rooted (butlast out) es
         else if rooted then clean_elems rooted out es
         else clean_elems rooted (out @ [''..'']) es)
      else clean_elems rooted (out @ [e]) es)"

definition Clean :: "string \<Rightarrow> string" where
  "Clean path =
     (if path = [] then ''.''
      else
        let rooted = is_sep (hd path);
            out = clean_elems rooted [] (split_slash path)
        in if rooted then ''/'' @ join_slash out
           else if out = [] then ''.'' else join_slash out)"

fun Join :: "string list \<Rightarrow> string" where
  "Join [] = []"
| "Join (e # es) = (if e \<noteq> [] then Clean (join_slash (e # es)) else Join es)"

subsection \<open>\<^verbatim>\<open>net/http\<close>: query values, errors, the size-limited multipart decoder\<close>

text \<open>\<^verbatim>\<open>url.Values.Get\<close>: the first value of the key, or the empty string.\<close>

definition Get :: "(string \<Rightarrow> string list option) \<Rightarrow> string \<Rightarrow> string" where
  "Get values k = (case values k of None \<Rightarrow> [] | Some [] \<Rightarrow> [] | Some (v # _) \<Rightarrow> v)"

text \<open>\<^verbatim>\<open>http.Error\<close>: a plain-text response with the given status.\<close>

definition http_Error :: "string \<Rightarrow> nat \<Rightarrow> response" where
  "http_Error msg code =
     \<lparr>status = code, content_type = ''text/plain; charset=utf-8'', payload = msg @ [CHR 0x0A]\<rparr>"

text \<open>
  \<^verbatim>\<open>Part.FileName\<close>: the declared file name passed through \<^verbatim>\<open>filepath.Base\<close>, and
  the empty string when none was declared.
\<close>

definition FileName :: "part \<Rightarrow> string" where
  "FileName p = (if declared_filename p = [] then [] else Base (declared_filename p))"

text \<open>
  \<^verbatim>\<open>multipart.Reader.ReadForm\<close>, as far as files go: a part without a field name is
  skipped, a part without a file name is a plain value and no file, and every other part
  is a file whose \<^verbatim>\<open>Filename\<close> is what \<^verbatim>\<open>Part.FileName\<close> gives.
\<close>

definition ReadForm :: "part list \<Rightarrow> upload_file list" where
  "ReadForm ps =
     map (\<lambda>p. \<lparr>field = FormName p, Filename = FileName p, content = part_content p\<rparr>)
       (filter (\<lambda>p. FormName p \<noteq> [] \<and> FileName p \<noteq> []) ps)"

text \<open>
  \<^verbatim>\<open>r.Body = http.MaxBytesReader(w, r.Body, limit)\<close> followed by
  \<^verbatim>\<open>r.ParseMultipartForm(limit)\<close>. The limiting reader hands over the first \<open>limit\<close>
  bytes of the body and fails the read that needs a byte past them, so the form is read
  exactly when the line of the closing boundary ends within the first \<open>limit\<close> bytes of
  the body. \<^verbatim>\<open>ParseMultipartForm\<close> also parses the query string, and returns the error
  of that after the form was read. (Its argument only says how much of the files is kept
  in memory.)
\<close>

definition ParseMultipartForm :: "nat \<Rightarrow> request \<Rightarrow> upload_file list option" where
  "ParseMultipartForm limit r =
     (case body r of
        Invalid \<Rightarrow> None
      | FormData n ps \<Rightarrow>
          if limit < n then None
          else if query_error r then None
          else Some (ReadForm ps))"

text \<open>\<^verbatim>\<open>r.FormFile(key)\<close>: the first file uploaded under the field name.\<close>

definition FormFile :: "upload_file list \<Rightarrow> string \<Rightarrow> upload_file option" where
  "FormFile form key = find (\<lambda>f. field f = key) form"

subsection \<open>\<^verbatim>\<open>os.Create\<close>, \<^verbatim>\<open>io.Copy\<close>, \<^verbatim>\<open>os.Remove\<close>\<close>

text \<open>\<^verbatim>\<open>os.Create\<close> makes the file empty, whether or not it existed.\<close>

definition os_Create :: "env \<Rightarrow> world \<Rightarrow> string \<Rightarrow> world option" where
  "os_Create e w path =
     (if create_fails e path then None else Some (w\<lparr>files := (files w)(path \<mapsto> [])\<rparr>))"

text \<open>
  \<^verbatim>\<open>io.Copy\<close> returns the number of bytes written and whether it failed; the
  destination holds the bytes written so far. A fault after \<open>k\<close> bytes breaks the
  copy of a longer stream.
\<close>

definition io_Copy :: "env \<Rightarrow> world \<Rightarrow> string \<Rightarrow> byte list \<Rightarrow> nat \<times> bool \<times> world" where
  "io_Copy e w path src =
     (case copy_fault e of
        None \<Rightarrow> (length src, False, w\<lparr>files := (files w)(path \<mapsto> src)\<rparr>)
      | Some k \<Rightarrow>
          if k < length src
          then (k, True, w\<lparr>files := (files w)(path \<mapsto> take k src)\<rparr>)
          else (length src, False, w\<lparr>files := (files w)(path \<mapsto> src)\<rparr>))"

text \<open>Whether the copy of a stream breaks in the environment.\<close>

definition copy_breaks :: "env \<Rightarrow> byte list \<Rightarrow> bool" where
  "copy_breaks e src = (case copy_fault e of None \<Rightarrow> False | Some k \<Rightarrow> k < length src)"

text \<open>\<^verbatim>\<open>os.Remove\<close>, its error ignored by the caller.\<close>

definition os_Remove :: "env \<Rightarrow> world \<Rightarrow> string \<Rightarrow> world" where
  "os_Remove e w path =
     (if remove_fails e then w else w\<lparr>files := (files w)(path := None)\<rparr>)"

subsection \<open>The handler\<close>

text \<open>
  The local variables \<^verbatim>\<open>safeFilename\<close> and \<^verbatim>\<open>destPath\<close> of the handler, as
  functions of the clock reading and the declared file name.
\<close>

definition safeFilename :: "time \<Rightarrow> string \<Rightarrow> string" where
  "safeFilename t filename = Format t @ ''_'' @ Base filename"

definition destPath :: "time \<Rightarrow> string \<Rightarrow> string" where
  "destPath t filename = Join [UPLOAD_DIR, safeFilename t filename]"

text \<open>
  \<^verbatim>\<open>fmt.Fprintf(w, `{"status": "success", "filename": "%s", "size": %d}`, ...)\<close>: the
  name is inserted as it is.
\<close>

definition success_payload :: "string \<Rightarrow> nat \<Rightarrow> string" where
  \<open>success_payload name written =
     ''{"status": "success", "filename": "'' @ name @ ''", "size": '' @ itoa written @ ''}''\<close>

text \<open>
  The handler, branch by branch in the order of the source. Every early return of the
  source is a branch that gives the response and the world at that point. The two
  deferred \<^verbatim>\<open>Close\<close> calls change neither and are left out.
\<close>

definition uploadHandler :: "env \<Rightarrow> world \<Rightarrow> request \<Rightarrow> string \<Rightarrow> response \<times> world" where
  "uploadHandler e w r apiKey =
     (if Method r \<noteq> MethodPost
      then (http_Error ''Method not allowed'' StatusMethodNotAllowed, w)
      else if Get (query r) ''api_key'' \<noteq> apiKey
      then (http_Error ''Invalid API key'' StatusUnauthorized, w)
      else
        let w1 = w\<lparr>body_decoded := True\<rparr> in
        case ParseMultipartForm MAX_FILE_SIZE r of
          None \<Rightarrow> (http_Error ''File too large or invalid form'' StatusBadRequest, w1)
        | Some form \<Rightarrow>
            (case FormFile form ''epub'' of
               None \<Rightarrow> (http_Error ''Failed to get uploaded file'' StatusBadRequest, w1)
             | Some header \<Rightarrow>
                 let filename = Filename header in
                 if \<not> HasSuffix (ToLower filename) ''.epub''
                 then (http_Error ''File must be an EPUB'' StatusBadRequest, w1)
                 else
                   let path = destPath (now e) filename in
                   (case os_Create e w1 path of
                      None \<Rightarrow>
                        (http_Error ''Failed to save file'' StatusInternalServerError,
                         w1\<lparr>log := log w1 @ [LogCreateFailed]\<rparr>)
                    | Some w2 \<Rightarrow>
                        (case io_Copy e w2 path (content header) of
                           (bytesWritten, failed, w3) \<Rightarrow>
                             if failed
                             then
                               (let w4 = os_Remove e (w3\<lparr>log := log w3 @ [LogCopyFailed]\<rparr>) path
                                in (http_Error ''Failed to save file'' StatusInternalServerError, w4))
                             else
                               (\<lparr>status = StatusOK, content_type = ''application/json'',
                                 payload = success_payload (safeFilename (now e) filename) bytesWritten\<rparr>,
                                w3\<lparr>log := log w3 @
                                   [LogUploaded (safeFilename (now e) filename) bytesWritten]\<rparr>)))))"

definition uploadHandlerWithKey ::
  "string \<Rightarrow> env \<Rightarrow> world \<Rightarrow> request \<Rightarrow> response \<times> world" where
  "uploadHandlerWithKey apiKey = (\<lambda>e w r. uploadHandler e w r apiKey)"

subsection \<open>Start-up\<close>

text \<open>
  \<^verbatim>\<open>main\<close> reads the key and the port from the process environment (\<^verbatim>\<open>os.Getenv\<close>
  gives the empty string for an unset variable), aborts without a key or without the
  upload directory, and otherwise serves with the key closed over.
\<close>

datatype startup = Fatal string | Serving string string

definition main :: "(string \<Rightarrow> string) \<Rightarrow> bool \<Rightarrow> startup" where
  "main getenv mkdir_ok =
     (let apiKey = getenv ''API_KEY'' in
      if apiKey = [] then Fatal ''API_KEY environment variable is required''
      else if \<not> mkdir_ok then Fatal ''Failed to create upload directory:''
      else
        let port = getenv ''PORT'';
            port = (if port = [] then ''8080'' else port)
        in Serving apiKey port)"

subsection \<open>The JSON shape of the success response\<close>

text \<open>
  A recogniser for the text \<^verbatim>\<open>{"status": "success", "filename": <string>, "size": <number>}\<close>,
  with the string and the number as JSON (RFC 8259) writes them. \<open>json_string_rest\<close>
  reads a JSON string after its opening quote and returns what follows the closing quote:
  a quote ends the string, a backslash starts one of the escapes, a control character is
  not allowed.
\<close>

definition is_hex :: "char \<Rightarrow> bool" where
  "is_hex c = (is_digit c \<or> c \<in> set ''abcdefABCDEF'')"

function json_string_rest :: "string \<Rightarrow> string option" where
  "json_string_rest [] = None"
| "json_string_rest [c] = (if c = CHR 0x22 then Some [] else None)"
| "json_string_rest (c # d # cs) =
     (if c = CHR 0x22 then Some (d # cs)
      else if c = CHR 0x5C then
        (if d \<in> set (CHR 0x22 # CHR 0x5C # ''/bfnrt'') then json_string_rest cs
         else if d = CHR ''u'' \<and> 4 \<le> length cs \<and> list_all is_hex (take 4 cs)
         then json_string_rest (drop 4 cs)
         else None)
      else if (of_char c :: nat) < 32 then None
      else json_string_rest (d # cs))"
  by pat_completeness auto
termination
  by (relation "measure length") auto

definition strip_prefix :: "string \<Rightarrow> string \<Rightarrow> string option" where
  "strip_prefix p s = (if take (length p) s = p then Some (drop (length p) s) else None)"

definition json_number :: "string \<Rightarrow> bool" where
  "json_number ds =
     (ds \<noteq> [] \<and> list_all is_digit ds \<and> (if hd ds = CHR ''0'' then ds = ''0'' else True))"

definition is_success_json :: "string \<Rightarrow> bool" where
  \<open>is_success_json s =
     (case strip_prefix ''{"status": "success", "filename": "'' s of
        None \<Rightarrow> False
      | Some r1 \<Rightarrow>
          (case json_string_rest r1 of
             None \<Rightarrow> False
           | Some r2 \<Rightarrow>
               (case strip_prefix '', "size": '' r2 of
                  None \<Rightarrow> False
                | Some r3 \<Rightarrow>
                    json_number (takeWhile is_digit r3) \<and> dropWhile is_digit r3 = ''}'')))\<close>

subsection \<open>Example inputs\<close>

definition example_time :: time where
  "example_time = \<lparr>year = 2024, month = 1, day = 2, hour = 3, minute = 4, second = 5\<rparr>"

definition later_time :: time where
  "later_time = \<lparr>year = 2024, month = 1, day = 2, hour = 3, minute = 4, second = 6\<rparr>"

text \<open>An environment without storage faults, and two in which the copy breaks.\<close>

definition quiet_env :: "time \<Rightarrow> env" where
  "quiet_env t = \<lparr>now = t, create_fails = (\<lambda>_. False), copy_fault = None, remove_fails = False\<rparr>"

definition broken_copy_env :: env where
  "broken_copy_env = (quiet_env example_time)\<lparr>copy_fault := Some 2\<rparr>"

definition stuck_file_env :: env where
  "stuck_file_env = (quiet_env example_time)\<lparr>copy_fault := Some 2, remove_fails := True\<rparr>"

definition empty_world :: world where
  "empty_world = \<lparr>files = (\<lambda>_. None), body_decoded = False, log = []\<rparr>"

definition example_content :: "byte list" where
  "example_content = [80, 75, 3]"

text \<open>A part uploading the example content under a declared name, and its decoded file.\<close>

definition upload_part :: "string \<Rightarrow> part" where
  "upload_part declared =
     \<lparr>FormName = ''epub'', declared_filename = declared, part_content = example_content\<rparr>"

definition upload_of :: "string \<Rightarrow> upload_file" where
  "upload_of filename = \<lparr>field = ''epub'', Filename = filename, content = example_content\<rparr>"

definition post_upload :: "string \<Rightarrow> string \<Rightarrow> request" where
  "post_upload key declared =
     \<lparr>Method = ''POST'', query = [''api_key'' \<mapsto> [key]], query_error = False, body_len = 300,
      body = FormData 300 [upload_part declared]\<rparr>"

text \<open>
  A body of one byte more than the ceiling: a 300-byte multipart message, and after the
  line of its closing boundary bytes that no decoder asks for.
\<close>

definition padded_upload :: request where
  "padded_upload = (post_upload ''secret'' ''book.epub'')\<lparr>body_len := MAX_FILE_SIZE + 1\<rparr>"

text \<open>An upload of \<^verbatim>\<open>book.epub\<close> with one byte of content more than the ceiling.\<close>

definition huge_part :: part where
  "huge_part =
     \<lparr>FormName = ''epub'', declared_filename = ''book.epub'',
      part_content = replicate 52428801 0\<rparr>"

definition huge_upload :: request where
  "huge_upload =
     \<lparr>Method = ''POST'', query = [''api_key'' \<mapsto> [''secret'']], query_error = False,
      body_len = 52429101, body = FormData 52429101 [huge_part]\<rparr>"

text \<open>A clock past the year 9999, and storage on which no file can be created.\<close>

definition far_time :: time where
  "far_time = \<lparr>year = 10000, month = 1, day = 2, hour = 3, minute = 4, second = 5\<rparr>"

definition no_create_env :: env where
  "no_create_env = (quiet_env example_time)\<lparr>create_fails := (\<lambda>_. True)\<rparr>"

text \<open>A file name with a double quote in it.\<close>

definition quoted_name :: string where
  \<open>quoted_name = ''a"b.epub''\<close>

definition example_getenv :: "string \<Rightarrow> string" where
  "example_getenv name = (if name = ''API_KEY'' then ''secret'' else [])"

section \<open>Properties\<close>

subsection \<open>Decimal printing\<close>

lemma itoa_small: "n < 10 \<Longrightarrow> itoa n = [digit_char n]"
  by (simp add: itoa.simps)

lemma itoa_big: "10 \<le> n \<Longrightarrow> itoa n = itoa (n div 10) @ [digit_char (n mod 10)]"
  by (subst itoa.simps) simp

lemma of_char_digit_char: "d < 10 \<Longrightarrow> (of_char (digit_char d) :: nat) = 48 + d"
proof -
  assume "d < 10"
  then consider "d = 0" | "d = 1" | "d = 2" | "d = 3" | "d = 4" | "d = 5" | "d = 6"
    | "d = 7" | "d = 8" | "d = 9"
    by atomize_elim arith
  then show ?thesis
    by cases (simp_all add: digit_char_def)
qed

lemma is_digit_digit_char: "d < 10 \<Longrightarrow> is_digit (digit_char d)"
  by (simp add: is_digit_def of_char_digit_char)

lemma itoa_digits: "list_all is_digit (itoa n)"
proof (induction n rule: itoa.induct)
  case (1 n)
  show ?case
  proof (cases "n < 10")
    case True
    then show ?thesis by (simp add: itoa_small is_digit_digit_char)
  next
    case False
    with 1 show ?thesis by (simp add: itoa_big is_digit_digit_char)
  qed
qed

lemma itoa_length: "0 < w \<Longrightarrow> n < 10 ^ w \<Longrightarrow> length (itoa n) \<le> w"
proof (induction w arbitrary: n)
  case 0
  then show ?case by simp
next
  case (Suc w)
  show ?case
  proof (cases "n < 10")
    case True
    then show ?thesis by (simp add: itoa_small)
  next
    case False
    then have w: "0 < w" using Suc.prems by (cases w) auto
    have "n div 10 < 10 ^ w" using Suc.prems by (simp add: less_mult_imp_div_less mult.commute)
    with Suc.IH w have "length (itoa (n div 10)) \<le> w" by blast
    with False show ?thesis by (simp add: itoa_big)
  qed
qed

lemma atoi_snoc: "atoi (s @ [c]) = 10 * atoi s + ((of_char c :: nat) - 48)"
  by (simp add: atoi_def)

text \<open>The decimal text printed for a number reads back as that number.\<close>

lemma atoi_itoa: "atoi (itoa n) = n"
proof (induction n rule: itoa.induct)
  case (1 n)
  show ?case
  proof (cases "n < 10")
    case True
    then show ?thesis by (simp add: itoa_small atoi_def of_char_digit_char)
  next
    case False
    with 1 show ?thesis by (simp add: itoa_big atoi_snoc of_char_digit_char)
  qed
qed

lemma atoi_zeros: "atoi (replicate k (CHR ''0'') @ s) = atoi s"
proof -
  have "foldl (\<lambda>acc c. 10 * acc + ((of_char c :: nat) - 48)) 0 (replicate k (CHR ''0'')) = 0"
    by (induction k) simp_all
  then show ?thesis by (simp add: atoi_def)
qed

lemma atoi_zero_pad: "atoi (zero_pad w n) = n"
  by (simp add: zero_pad_def atoi_zeros atoi_itoa)

lemma length_zero_pad: "0 < w \<Longrightarrow> n < 10 ^ w \<Longrightarrow> length (zero_pad w n) = w"
  using itoa_length [of w n] by (simp add: zero_pad_def)

lemma zero_pad_digits: "list_all is_digit (zero_pad w n)"
proof -
  have "list_all is_digit (replicate k (CHR ''0''))" for k
    by (induction k) (simp_all add: is_digit_def)
  then show ?thesis by (simp add: zero_pad_def itoa_digits)
qed

lemma zero_pad_inj: "zero_pad w a = zero_pad w b \<Longrightarrow> a = b"
  by (metis atoi_zero_pad)

subsection \<open>The time stamp\<close>

lemma length_Format: "valid_time t \<Longrightarrow> length (Format t) = 15"
  by (simp add: Format_def valid_time_def length_zero_pad)

lemma Format_pattern: "valid_time t \<Longrightarrow> stamp_pattern (Format t)"
  by (simp add: stamp_pattern_def length_Format)
    (simp add: Format_def valid_time_def length_zero_pad zero_pad_digits nth_append)

lemma is_digit_not_sep: "is_digit c \<Longrightarrow> c \<noteq> CHR ''/''"
  by (auto simp: is_digit_def)

lemma zero_pad_no_sep: "CHR ''/'' \<notin> set (zero_pad w n)"
  using zero_pad_digits [of w n] by (auto simp: list_all_iff dest: is_digit_not_sep)

lemma Format_no_sep: "CHR ''/'' \<notin> set (Format t)"
  by (simp add: Format_def zero_pad_no_sep)

lemma Format_inj:
  assumes "valid_time s" and "valid_time t" and "Format s = Format t"
  shows "s = t"
proof -
  have l4: "length (zero_pad 4 (year s)) = length (zero_pad 4 (year t))"
    using assms(1,2) by (simp add: valid_time_def length_zero_pad)
  have l2: "length (zero_pad 2 (f s)) = length (zero_pad 2 (f t))"
    if "f s < 100" and "f t < 100" for f :: "time \<Rightarrow> nat"
    using that by (simp add: length_zero_pad)
  have b: "month s < 100" "month t < 100" "day s < 100" "day t < 100"
    "hour s < 100" "hour t < 100" "minute s < 100" "minute t < 100"
    "second s < 100" "second t < 100"
    using assms(1,2) by (simp_all add: valid_time_def)
  from assms(3) have "zero_pad 4 (year s) = zero_pad 4 (year t)
      \<and> zero_pad 2 (month s) = zero_pad 2 (month t)
      \<and> zero_pad 2 (day s) = zero_pad 2 (day t)
      \<and> zero_pad 2 (hour s) = zero_pad 2 (hour t)
      \<and> zero_pad 2 (minute s) = zero_pad 2 (minute t)
      \<and> zero_pad 2 (second s) = zero_pad 2 (second t)"
    unfolding Format_def
    using l4 l2 [of month] l2 [of day] l2 [of hour] l2 [of minute] l2 [of second] b
    by simp
  then show ?thesis
    by (auto dest!: zero_pad_inj intro: time.equality)
qed

subsection \<open>Paths\<close>

lemma split_slash_nonempty: "split_slash s \<noteq> []"
  by (induction s) (auto split: list.splits)

lemma split_slash_plain: "CHR ''/'' \<notin> set s \<Longrightarrow> split_slash s = [s]"
  by (induction s) (auto simp: is_sep_def)

lemma split_slash_append:
  "split_slash (a @ CHR ''/'' # b) = split_slash a @ split_slash b"
proof (induction a)
  case Nil
  show ?case by (simp add: is_sep_def)
next
  case (Cons c a)
  then show ?case
    using split_slash_nonempty [of a] by (cases "split_slash a") (auto simp: is_sep_def)
qed

lemma last_split_slash:
  "last (split_slash s) = rev (takeWhile (\<lambda>c. \<not> is_sep c) (rev s))"
proof (cases "CHR ''/'' \<in> set s")
  case False
  then have tw: "takeWhile (\<lambda>c. \<not> is_sep c) (rev s) = rev s"
    by (simp add: takeWhile_eq_all_conv is_sep_def) metis
  from False show ?thesis by (simp add: split_slash_plain tw)
next
  case True
  then have "CHR ''/'' \<in> set (rev s)" by simp
  then obtain b' a' where r: "rev s = b' @ CHR ''/'' # a'" and nb: "CHR ''/'' \<notin> set b'"
    by (meson split_list_first)
  then have s: "s = rev a' @ CHR ''/'' # rev b'"
    by (metis rev_rev_ident rev_append rev.simps(2) append.assoc append_Cons append_Nil)
  have "takeWhile (\<lambda>c. \<not> is_sep c) (rev s) = b'"
    unfolding r using nb by (auto simp: takeWhile_tail is_sep_def)
  moreover have "last (split_slash s) = rev b'"
    unfolding s using nb split_slash_nonempty by (simp add: split_slash_append split_slash_plain)
  ultimately show ?thesis by simp
qed

lemma lower_char_sep: "lower_char c = CHR ''b'' \<Longrightarrow> \<not> is_sep c"
  by (auto simp: lower_char_def is_sep_def split: if_splits)

lemma epub_suffix_last:
  assumes "HasSuffix (ToLower f) ''.epub''"
  shows "f \<noteq> [] \<and> \<not> is_sep (last f)"
proof -
  from assms have len: "5 \<le> length f" and d: "drop (length f - 5) (map lower_char f) = ''.epub''"
    by (simp_all add: HasSuffix_def ToLower_def eval_nat_numeral)
  from len have ne: "f \<noteq> []" by auto
  have "last (map lower_char f) = last (drop (length f - 5) (map lower_char f))"
    using len by (simp add: last_drop)
  with d have "last (map lower_char f) = CHR ''b''" by simp
  with ne have "lower_char (last f) = CHR ''b''" by (simp add: last_map)
  with ne show ?thesis by (simp add: lower_char_sep)
qed

lemma Base_epub:
  assumes "HasSuffix (ToLower f) ''.epub''"
  shows "Base f = last (split_slash f)" and "Base f \<noteq> []" and "CHR ''/'' \<notin> set (Base f)"
proof -
  from epub_suffix_last [OF assms] have ne: "f \<noteq> []" and l: "\<not> is_sep (last f)" by simp_all
  then obtain c g where r: "rev f = c # g" and c: "\<not> is_sep c"
    by (metis last_rev rev_is_Nil_conv list.exhaust_sel hd_rev rev_rev_ident)
  have st: "rev (dropWhile is_sep (rev f)) = f"
    using r c by simp
  have el: "takeWhile (\<lambda>c. \<not> is_sep c) (rev f) \<noteq> []"
    using r c by simp
  show "Base f = last (split_slash f)"
    using ne st el by (simp add: Base_def Let_def last_split_slash)
  with el show "Base f \<noteq> []" by (simp add: last_split_slash)
  show "CHR ''/'' \<notin> set (Base f)"
    unfolding \<open>Base f = last (split_slash f)\<close> last_split_slash
    by (auto simp: is_sep_def dest: set_takeWhileD)
qed

lemma Join_upload_dir:
  assumes "CHR ''/'' \<notin> set name" and "name \<noteq> []" and "name \<noteq> ''.''" and "name \<noteq> ''..''"
  shows "Join [UPLOAD_DIR, name] = UPLOAD_DIR @ ''/'' @ name"
  using assms
  by (simp add: UPLOAD_DIR_def Clean_def is_sep_def split_slash_plain)

lemma safeFilename_marks:
  "CHR ''_'' \<in> set (safeFilename t f)"
  by (simp add: safeFilename_def)

lemma destPath_epub:
  assumes "HasSuffix (ToLower f) ''.epub''"
  shows "destPath t f = UPLOAD_DIR @ ''/'' @ safeFilename t f"
    and "CHR ''/'' \<notin> set (safeFilename t f)"
proof -
  show n: "CHR ''/'' \<notin> set (safeFilename t f)"
    using Base_epub(3) [OF assms] by (simp add: safeFilename_def Format_no_sep)
  have "safeFilename t f \<noteq> []" "safeFilename t f \<noteq> ''.''" "safeFilename t f \<noteq> ''..''"
    using safeFilename_marks [of t f] by auto
  with n show "destPath t f = UPLOAD_DIR @ ''/'' @ safeFilename t f"
    unfolding destPath_def by (rule Join_upload_dir)
qed

text \<open>Different clock readings give different stored names, whatever the declared names.\<close>

lemma safeFilename_differs:
  assumes "valid_time s" and "valid_time t" and "s \<noteq> t"
  shows "safeFilename s f \<noteq> safeFilename t g"
proof
  assume "safeFilename s f = safeFilename t g"
  moreover have "length (Format s) = length (Format t)"
    using assms(1,2) by (simp add: length_Format)
  ultimately have "Format s = Format t"
    by (simp add: safeFilename_def)
  with assms show False
    using Format_inj by blast
qed

subsection \<open>The outcomes of the handler\<close>

lemmas status_defs =
  StatusOK_def StatusBadRequest_def StatusUnauthorized_def StatusMethodNotAllowed_def
  StatusInternalServerError_def

lemma io_Copy_whole:
  "\<not> copy_breaks e src \<Longrightarrow>
   io_Copy e w path src = (length src, False, w\<lparr>files := (files w)(path \<mapsto> src)\<rparr>)"
  by (simp add: io_Copy_def copy_breaks_def split: option.splits)

lemma io_Copy_broken:
  "copy_fault e = Some k \<Longrightarrow> k < length src \<Longrightarrow>
   io_Copy e w path src = (k, True, w\<lparr>files := (files w)(path \<mapsto> take k src)\<rparr>)"
  by (simp add: io_Copy_def)

text \<open>The file the handler gets was declared by a part of the form, and carries its bytes.\<close>

lemma FormFile_ReadForm:
  assumes "FormFile (ReadForm ps) key = Some h"
  shows "\<exists>p \<in> set ps. FormName p = key \<and> declared_filename p \<noteq> [] \<and>
    Filename h = Base (declared_filename p) \<and> content h = part_content p"
proof -
  from assms have "h \<in> set (ReadForm ps)" and "field h = key"
    by (auto simp: FormFile_def find_Some_iff)
  then show ?thesis
    by (auto simp: ReadForm_def FileName_def split: if_splits)
qed

lemma uploadHandler_stored:
  assumes "Method r = MethodPost"
    and "Get (query r) ''api_key'' = apiKey"
    and "\<not> query_error r"
    and "body r = FormData n ps" and "n \<le> MAX_FILE_SIZE"
    and "FormFile (ReadForm ps) ''epub'' = Some h"
    and "HasSuffix (ToLower (Filename h)) ''.epub''"
    and "\<not> create_fails e (destPath (now e) (Filename h))"
    and "\<not> copy_breaks e (content h)"
  shows "uploadHandler e w r apiKey =
    (\<lparr>status = 200, content_type = ''application/json'',
      payload = success_payload (safeFilename (now e) (Filename h)) (length (content h))\<rparr>,
     w\<lparr>body_decoded := True,
       files := (files w)(destPath (now e) (Filename h) \<mapsto> content h),
       log := log w @ [LogUploaded (safeFilename (now e) (Filename h)) (length (content h))]\<rparr>)"
  using assms
  by (simp add: uploadHandler_def ParseMultipartForm_def os_Create_def io_Copy_whole
      StatusOK_def Let_def)

lemma uploadHandler_copy_failed:
  assumes "Method r = MethodPost"
    and "Get (query r) ''api_key'' = apiKey"
    and "\<not> query_error r"
    and "body r = FormData n ps" and "n \<le> MAX_FILE_SIZE"
    and "FormFile (ReadForm ps) ''epub'' = Some h"
    and "HasSuffix (ToLower (Filename h)) ''.epub''"
    and "\<not> create_fails e (destPath (now e) (Filename h))"
    and "copy_fault e = Some k" and "k < length (content h)"
  shows "uploadHandler e w r apiKey =
    (http_Error ''Failed to save file'' 500,
     os_Remove e
       (w\<lparr>body_decoded := True,
          files := (files w)(destPath (now e) (Filename h) \<mapsto> take k (content h)),
          log := log w @ [LogCopyFailed]\<rparr>)
       (destPath (now e) (Filename h)))"
  using assms
  by (simp add: uploadHandler_def ParseMultipartForm_def os_Create_def io_Copy_broken
      StatusInternalServerError_def Let_def)

lemma uploadHandler_200:
  assumes "status (fst (uploadHandler e w r apiKey)) = 200"
    and "body r = FormData n ps" and "FormFile (ReadForm ps) ''epub'' = Some h"
  shows "Method r = MethodPost \<and> Get (query r) ''api_key'' = apiKey \<and> \<not> query_error r \<and>
    n \<le> MAX_FILE_SIZE \<and> HasSuffix (ToLower (Filename h)) ''.epub'' \<and>
    \<not> create_fails e (destPath (now e) (Filename h)) \<and> \<not> copy_breaks e (content h)"
  using assms
  by (auto simp: uploadHandler_def ParseMultipartForm_def os_Create_def io_Copy_def
      copy_breaks_def http_Error_def status_defs Let_def split: if_splits option.splits)

text \<open>The only path whose content the handler can change is a derived destination.\<close>

lemma uploadHandler_touches_only:
  assumes "files (snd (uploadHandler e w r apiKey)) p \<noteq> files w p"
  shows "\<exists>f. HasSuffix (ToLower f) ''.epub'' \<and> p = destPath (now e) f"
  using assms
  by (auto simp: uploadHandler_def ParseMultipartForm_def os_Create_def io_Copy_def os_Remove_def
      Let_def split: if_splits option.splits body.splits)

subsection \<open>Facts about the example inputs\<close>

lemmas example_defs =
  post_upload_def upload_of_def quiet_env_def empty_world_def
  MethodPost_def Get_def FormFile_def

lemma length_example_content: "length example_content = 3"
  by (simp add: example_content_def)

lemma MAX_FILE_SIZE_value: "MAX_FILE_SIZE = 52428800"
  by (simp add: MAX_FILE_SIZE_def)

lemma Format_example_time: "Format example_time = ''20240102_030405''"
  by (simp add: Format_def example_time_def zero_pad_def itoa_small itoa_big digit_char_def)

lemma Format_later_time: "Format later_time = ''20240102_030406''"
  by (simp add: Format_def later_time_def zero_pad_def itoa_small itoa_big digit_char_def)

lemma Format_far_time: "Format far_time = ''100000102_030405''"
  by (simp add: Format_def far_time_def zero_pad_def itoa_small itoa_big digit_char_def)

lemma valid_example_time: "valid_time example_time"
  by (simp add: valid_time_def example_time_def)

lemma valid_later_time: "valid_time later_time"
  by (simp add: valid_time_def later_time_def)

lemma epub_book: "HasSuffix (ToLower ''book.epub'') ''.epub''"
  by (simp add: HasSuffix_def ToLower_def lower_char_def)

lemma epub_bare: "HasSuffix (ToLower ''.epub'') ''.epub''"
  by (simp add: HasSuffix_def ToLower_def lower_char_def)

lemma Base_book: "Base ''book.epub'' = ''book.epub''"
  by (simp add: Base_def is_sep_def)

lemma Base_bare: "Base ''.epub'' = ''.epub''"
  by (simp add: Base_def is_sep_def)

lemma Base_book_slash: "Base ''book.epub/'' = ''book.epub''"
  by (simp add: Base_def is_sep_def)

lemma Base_quoted: "Base quoted_name = quoted_name"
  by (simp add: Base_def is_sep_def quoted_name_def)

lemma ReadForm_upload_part:
  "declared \<noteq> [] \<Longrightarrow> ReadForm [upload_part declared] = [upload_of (Base declared)]"
  by (auto simp: ReadForm_def FileName_def upload_part_def upload_of_def Base_def Let_def)

lemma destPath_book: "destPath example_time ''book.epub'' = ''/app/uploads/20240102_030405_book.epub''"
  using destPath_epub(1) [OF epub_book, of example_time]
  by (simp add: safeFilename_def Base_book Format_example_time UPLOAD_DIR_def)

lemma destPath_book_later: "destPath later_time ''book.epub'' = ''/app/uploads/20240102_030406_book.epub''"
  using destPath_epub(1) [OF epub_book, of later_time]
  by (simp add: safeFilename_def Base_book Format_later_time UPLOAD_DIR_def)

lemma form_book: "ReadForm [upload_part ''book.epub''] = [upload_of ''book.epub'']"
  using ReadForm_upload_part [of "''book.epub''"] by (simp add: Base_book)

section \<open>The claims\<close>

text \<open>
  C1, as stated, fails for requests that have everything the claim lists: a POST with the
  configured key and a file \<^verbatim>\<open>book.epub\<close> in the field \<^verbatim>\<open>epub\<close>. With 52428801
  bytes of content the form does not end within the ceiling and the response is 400;
  with a malformed pair in the query string \<^verbatim>\<open>ParseMultipartForm\<close> returns an error and
  the response is 400; when the file cannot be created, or the copy breaks, the response is
  500; and in the year 10000 the upload succeeds under a name whose time stamp has nine
  digits before the underscore.
\<close>

theorem book_upload_preconditions_counterexample:
  "Method huge_upload = MethodPost \<and>
   Get (query huge_upload) ''api_key'' = ''secret'' \<and>
   wf_request huge_upload \<and>
   body huge_upload = FormData 52429101 [huge_part] \<and>
   FormName huge_part = ''epub'' \<and> declared_filename huge_part = ''book.epub'' \<and>
   length (part_content huge_part) = 52428801 \<and>
   status (fst (uploadHandler (quiet_env example_time) empty_world huge_upload ''secret'')) = 400 \<and>
   status (fst (uploadHandler (quiet_env example_time) empty_world
      ((post_upload ''secret'' ''book.epub'')\<lparr>query_error := True\<rparr>) ''secret'')) = 400 \<and>
   status (fst (uploadHandler no_create_env empty_world
      (post_upload ''secret'' ''book.epub'') ''secret'')) = 500 \<and>
   status (fst (uploadHandler broken_copy_env empty_world
      (post_upload ''secret'' ''book.epub'') ''secret'')) = 500 \<and>
   status (fst (uploadHandler (quiet_env far_time) empty_world
      (post_upload ''secret'' ''book.epub'') ''secret'')) = 200 \<and>
   payload (fst (uploadHandler (quiet_env far_time) empty_world
      (post_upload ''secret'' ''book.epub'') ''secret'')) =
      success_payload ''100000102_030405_book.epub'' 3 \<and>
   \<not> stamp_pattern ''100000102_030405''"
proof -
  let ?r = "post_upload ''secret'' ''book.epub''"
  have form: "ReadForm [upload_part ''book.epub''] = [upload_of ''book.epub'']"
    using ReadForm_upload_part [of "''book.epub''"] by (simp add: Base_book)
  have huge: "status (fst (uploadHandler (quiet_env example_time) empty_world huge_upload ''secret'')) = 400"
    by (simp add: uploadHandler_def huge_upload_def ParseMultipartForm_def MAX_FILE_SIZE_value
        MethodPost_def Get_def http_Error_def StatusBadRequest_def)
  have query: "status (fst (uploadHandler (quiet_env example_time) empty_world
      (?r\<lparr>query_error := True\<rparr>) ''secret'')) = 400"
    by (simp add: uploadHandler_def post_upload_def ParseMultipartForm_def MAX_FILE_SIZE_value
        MethodPost_def Get_def http_Error_def StatusBadRequest_def)
  have create: "status (fst (uploadHandler no_create_env empty_world ?r ''secret'')) = 500"
    by (simp add: uploadHandler_def post_upload_def ParseMultipartForm_def MAX_FILE_SIZE_value
        MethodPost_def Get_def form FormFile_def upload_of_def epub_book os_Create_def
        no_create_env_def quiet_env_def http_Error_def StatusInternalServerError_def)
  have copy: "status (fst (uploadHandler broken_copy_env empty_world ?r ''secret'')) = 500"
    using uploadHandler_copy_failed [of ?r "''secret''" 300 "[upload_part ''book.epub'']"
        "upload_of ''book.epub''" broken_copy_env 2 empty_world]
    by (simp add: example_defs form broken_copy_env_def MAX_FILE_SIZE_value epub_book
        length_example_content http_Error_def)
  have far: "uploadHandler (quiet_env far_time) empty_world ?r ''secret'' =
    (\<lparr>status = 200, content_type = ''application/json'',
      payload = success_payload (safeFilename far_time ''book.epub'') (length example_content)\<rparr>,
     empty_world\<lparr>body_decoded := True,
       files := (files empty_world)(destPath far_time ''book.epub'' \<mapsto> example_content),
       log := log empty_world @
         [LogUploaded (safeFilename far_time ''book.epub'') (length example_content)]\<rparr>)"
    using uploadHandler_stored [of ?r "''secret''" 300 "[upload_part ''book.epub'']"
        "upload_of ''book.epub''" "quiet_env far_time" empty_world]
    by (simp add: example_defs form MAX_FILE_SIZE_value copy_breaks_def epub_book)
  have name: "safeFilename far_time ''book.epub'' = ''100000102_030405_book.epub''"
    by (simp add: safeFilename_def Base_book Format_far_time)
  have pat: "\<not> stamp_pattern ''100000102_030405''"
    by (simp add: stamp_pattern_def)
  show ?thesis
    using huge query create copy far name pat
    by (simp add: huge_upload_def huge_part_def wf_request_def MethodPost_def Get_def
        length_example_content)
qed

text \<open>
  C1, amended. A POST with the configured key and a well-formed query string, whose form
  ends within the ceiling and holds a file in the field \<^verbatim>\<open>epub\<close> that reaches the
  handler as \<^verbatim>\<open>book.epub\<close> (as a file declared \<^verbatim>\<open>book.epub\<close> does) with \<open>S\<close> bytes of
  content, at a clock reading with a four-digit year, on storage that creates and writes
  the file without a fault. The response is 200 with content type
  \<^verbatim>\<open>application/json\<close>; its text reports as file name the time stamp, which matches
  \<^verbatim>\<open>\d{8}_\d{6}\<close>, followed by \<^verbatim>\<open>_book.epub\<close>, and as size \<open>S\<close> in decimal; and the file
  of that name under \<^verbatim>\<open>/app/uploads\<close> holds exactly the uploaded bytes.
\<close>

theorem valid_book_upload_stored:
  assumes "Method r = MethodPost"
    and "Get (query r) ''api_key'' = apiKey"
    and "\<not> query_error r"
    and "body r = FormData n ps" and "n \<le> MAX_FILE_SIZE"
    and "FormFile (ReadForm ps) ''epub'' = Some h" and "Filename h = ''book.epub''"
    and "valid_time (now e)"
    and "\<not> create_fails e (''/app/uploads/'' @ Format (now e) @ ''_book.epub'')"
    and "\<not> copy_breaks e (content h)"
  shows \<open>status (fst (uploadHandler e w r apiKey)) = 200 \<and>
    content_type (fst (uploadHandler e w r apiKey)) = ''application/json'' \<and>
    payload (fst (uploadHandler e w r apiKey)) =
      ''{"status": "success", "filename": "'' @ Format (now e) @ ''_book.epub'' @
      ''", "size": '' @ itoa (length (content h)) @ ''}'' \<and>
    stamp_pattern (Format (now e)) \<and>
    atoi (itoa (length (content h))) = length (content h) \<and>
    files (snd (uploadHandler e w r apiKey)) (''/app/uploads/'' @ Format (now e) @ ''_book.epub'')
      = Some (content h)\<close>
proof -
  have ext: "HasSuffix (ToLower (Filename h)) ''.epub''"
    using assms(7) epub_book by simp
  have name: "safeFilename (now e) (Filename h) = Format (now e) @ ''_book.epub''"
    using assms(7) by (simp add: safeFilename_def Base_book)
  have path: "destPath (now e) (Filename h) = ''/app/uploads/'' @ Format (now e) @ ''_book.epub''"
    using destPath_epub(1) [OF ext, of "now e"] name by (simp add: UPLOAD_DIR_def)
  have "\<not> create_fails e (destPath (now e) (Filename h))"
    using assms(9) path by simp
  from uploadHandler_stored [OF assms(1-6) ext this assms(10), of w]
  show ?thesis
    using name path by (simp add: Format_pattern [OF assms(8)] atoi_itoa success_payload_def)
qed

theorem valid_book_upload_stored_witness:
  \<open>declared_filename (upload_part ''book.epub'') = ''book.epub'' \<and>
   body (post_upload ''secret'' ''book.epub'') = FormData 300 [upload_part ''book.epub''] \<and>
   status (fst (uploadHandler (quiet_env example_time) empty_world
      (post_upload ''secret'' ''book.epub'') ''secret'')) = 200 \<and>
   payload (fst (uploadHandler (quiet_env example_time) empty_world
      (post_upload ''secret'' ''book.epub'') ''secret'')) =
      ''{"status": "success", "filename": "20240102_030405_book.epub", "size": 3}'' \<and>
   files (snd (uploadHandler (quiet_env example_time) empty_world
      (post_upload ''secret'' ''book.epub'') ''secret''))
      ''/app/uploads/20240102_030405_book.epub'' = Some example_content\<close>
proof -
  have form: "ReadForm [upload_part ''book.epub''] = [upload_of ''book.epub'']"
    using ReadForm_upload_part [of "''book.epub''"] by (simp add: Base_book)
  have declared: "declared_filename (upload_part ''book.epub'') = ''book.epub''"
    by (simp add: upload_part_def)
  from valid_book_upload_stored [of "post_upload ''secret'' ''book.epub''" "''secret''" 300
      "[upload_part ''book.epub'']" "upload_of ''book.epub''" "quiet_env example_time" empty_world]
    declared
  show ?thesis
    by (simp add: example_defs form MAX_FILE_SIZE_value copy_breaks_def
        valid_example_time Format_example_time length_example_content itoa_small digit_char_def)
qed

text \<open>
  C2, as stated, fails where the deletion fails too: the copy breaks after two bytes,
  \<^verbatim>\<open>os.Remove\<close> returns an error that the handler ignores, the response is 500 and
  the destination path still exists, holding the two bytes written.
\<close>

theorem partial_file_left_counterexample:
  "copy_fault stuck_file_env = Some 2 \<and> 2 < length example_content \<and>
   status (fst (uploadHandler stuck_file_env empty_world
      (post_upload ''secret'' ''book.epub'') ''secret'')) = 500 \<and>
   files (snd (uploadHandler stuck_file_env empty_world
      (post_upload ''secret'' ''book.epub'') ''secret''))
      ''/app/uploads/20240102_030405_book.epub'' = Some [80, 75]"
proof -
  have "uploadHandler stuck_file_env empty_world (post_upload ''secret'' ''book.epub'') ''secret'' =
    (http_Error ''Failed to save file'' 500,
     os_Remove stuck_file_env
       (empty_world\<lparr>body_decoded := True,
          files := (files empty_world)(destPath example_time ''book.epub'' \<mapsto> take 2 example_content),
          log := log empty_world @ [LogCopyFailed]\<rparr>)
       (destPath example_time ''book.epub''))"
    using uploadHandler_copy_failed [of "post_upload ''secret'' ''book.epub''" "''secret''" 300
        "[upload_part ''book.epub'']" "upload_of ''book.epub''" stuck_file_env 2 empty_world]
    by (simp add: example_defs form_book stuck_file_env_def MAX_FILE_SIZE_value epub_book
        destPath_book length_example_content)
  then show ?thesis
    by (simp add: http_Error_def os_Remove_def stuck_file_env_def quiet_env_def destPath_book
        length_example_content) (simp add: example_content_def)
qed

text \<open>
  C2, amended. When the copy to the destination file breaks after \<open>k\<close> bytes, the
  response is 500 whether or not the deletion succeeds. After the handler returns the
  destination path does not exist if the deletion succeeded; if the deletion failed,
  the path is left holding the \<open>k\<close> bytes written. (A request reaches the copy only
  with a well-formed query string, a form within the ceiling and a created file.)
\<close>

theorem broken_copy_cleaned_up:
  assumes "Method r = MethodPost"
    and "Get (query r) ''api_key'' = apiKey"
    and "\<not> query_error r"
    and "body r = FormData n ps" and "n \<le> MAX_FILE_SIZE"
    and "FormFile (ReadForm ps) ''epub'' = Some h"
    and "HasSuffix (ToLower (Filename h)) ''.epub''"
    and "\<not> create_fails e (destPath (now e) (Filename h))"
    and "copy_fault e = Some k" and "k < length (content h)"
  shows "status (fst (uploadHandler e w r apiKey)) = 500 \<and>
    files (snd (uploadHandler e w r apiKey)) (destPath (now e) (Filename h)) =
      (if remove_fails e then Some (take k (content h)) else None)"
  using uploadHandler_copy_failed [OF assms, of w]
  by (simp add: http_Error_def os_Remove_def)

theorem broken_copy_cleaned_up_witness:
  "status (fst (uploadHandler broken_copy_env empty_world
      (post_upload ''secret'' ''book.epub'') ''secret'')) = 500 \<and>
   files (snd (uploadHandler broken_copy_env empty_world
      (post_upload ''secret'' ''book.epub'') ''secret''))
      ''/app/uploads/20240102_030405_book.epub'' = None"
  using broken_copy_cleaned_up [of "post_upload ''secret'' ''book.epub''" "''secret''" 300
      "[upload_part ''book.epub'']" "upload_of ''book.epub''" broken_copy_env 2 empty_world]
  by (simp add: example_defs form_book broken_copy_env_def MAX_FILE_SIZE_value epub_book
      destPath_book length_example_content)

text \<open>
  C3. The server only serves with a key that is not empty. A POST whose \<^verbatim>\<open>api_key\<close>
  parameter is missing, or differs from that key, gets 401; the world is left as it was
  (no file is created, the body is not handed to the decoder), and the outcome is the
  same whatever the body is.
\<close>

theorem wrong_key_unauthorized:
  assumes "main getenv mkdir_ok = Serving apiKey port"
    and "Method r = MethodPost"
    and "query r ''api_key'' = None \<or> Get (query r) ''api_key'' \<noteq> apiKey"
  shows "apiKey \<noteq> [] \<and>
    status (fst (uploadHandler e w r apiKey)) = 401 \<and>
    snd (uploadHandler e w r apiKey) = w \<and>
    uploadHandler e w (r\<lparr>body_len := l, body := b\<rparr>) apiKey = uploadHandler e w r apiKey"
proof -
  from assms(1) have key: "apiKey \<noteq> []"
    by (auto simp: main_def Let_def split: if_splits)
  from assms(3) have "Get (query r) ''api_key'' \<noteq> apiKey"
  proof
    assume "query r ''api_key'' = None"
    then have "Get (query r) ''api_key'' = []" by (simp add: Get_def)
    with key show ?thesis by simp
  qed
  with assms(2) key show ?thesis
    by (simp add: uploadHandler_def http_Error_def StatusUnauthorized_def)
qed

theorem wrong_key_unauthorized_witness:
  "status (fst (uploadHandler (quiet_env example_time) empty_world
      ((post_upload ''secret'' ''book.epub'')\<lparr>query := Map.empty\<rparr>) ''secret'')) = 401 \<and>
   snd (uploadHandler (quiet_env example_time) empty_world
      ((post_upload ''secret'' ''book.epub'')\<lparr>query := Map.empty\<rparr>) ''secret'') = empty_world \<and>
   status (fst (uploadHandler (quiet_env example_time) empty_world
      (post_upload ''guess'' ''book.epub'') ''secret'')) = 401 \<and>
   snd (uploadHandler (quiet_env example_time) empty_world
      (post_upload ''guess'' ''book.epub'') ''secret'') = empty_world"
  using wrong_key_unauthorized [of example_getenv True "''secret''" "''8080''"
      "(post_upload ''secret'' ''book.epub'')\<lparr>query := Map.empty\<rparr>"
      "quiet_env example_time" empty_world]
    wrong_key_unauthorized [of example_getenv True "''secret''" "''8080''"
      "post_upload ''guess'' ''book.epub''" "quiet_env example_time" empty_world]
  by (simp add: main_def example_getenv_def post_upload_def MethodPost_def Get_def)

text \<open>
  C4, as stated, fails for a body that is longer than the ceiling only by bytes that follow
  the line of the closing boundary of its multipart message: the 300-byte message at the
  head of a body of 50 MiB and one byte is decoded, and the upload is stored with 200.
\<close>

theorem trailing_bytes_counterexample:
  "Method padded_upload = MethodPost \<and>
   Get (query padded_upload) ''api_key'' = ''secret'' \<and>
   wf_request padded_upload \<and>
   MAX_FILE_SIZE < body_len padded_upload \<and>
   status (fst (uploadHandler (quiet_env example_time) empty_world padded_upload ''secret'')) = 200 \<and>
   files (snd (uploadHandler (quiet_env example_time) empty_world padded_upload ''secret''))
     ''/app/uploads/20240102_030405_book.epub'' = Some example_content"
proof -
  have "uploadHandler (quiet_env example_time) empty_world padded_upload ''secret'' =
    (\<lparr>status = 200, content_type = ''application/json'',
      payload = success_payload (safeFilename example_time ''book.epub'') (length example_content)\<rparr>,
     empty_world\<lparr>body_decoded := True,
       files := (files empty_world)(destPath example_time ''book.epub'' \<mapsto> example_content),
       log := log empty_world @
         [LogUploaded (safeFilename example_time ''book.epub'') (length example_content)]\<rparr>)"
    using uploadHandler_stored [of padded_upload "''secret''" 300 "[upload_part ''book.epub'']"
        "upload_of ''book.epub''" "quiet_env example_time" empty_world]
    by (simp add: padded_upload_def example_defs form_book MAX_FILE_SIZE_value copy_breaks_def
        epub_book)
  then show ?thesis
    by (simp add: padded_upload_def example_defs upload_part_def wf_request_def
        MAX_FILE_SIZE_value length_example_content destPath_book)
qed

text \<open>
  C4, amended. The ceiling is 50 MiB. An authenticated POST whose body does not hold a
  multipart message that ends within the first 50 MiB (it does not decode at all, or the
  line of its closing boundary ends past the ceiling) gets 400 with the message of the
  decoding step, and no file is created or changed.
\<close>

theorem oversized_form_rejected:
  assumes "Method r = MethodPost"
    and "Get (query r) ''api_key'' = apiKey"
    and "body r = Invalid \<or> (\<exists>n ps. body r = FormData n ps \<and> MAX_FILE_SIZE < n)"
  shows "MAX_FILE_SIZE = 50 * 1024 * 1024 \<and>
    status (fst (uploadHandler e w r apiKey)) = 400 \<and>
    payload (fst (uploadHandler e w r apiKey)) = ''File too large or invalid form'' @ [CHR 0x0A] \<and>
    files (snd (uploadHandler e w r apiKey)) = files w"
  using assms
  by (auto simp: uploadHandler_def ParseMultipartForm_def http_Error_def StatusBadRequest_def
      MAX_FILE_SIZE_value)

theorem oversized_form_rejected_witness:
  "wf_request ((post_upload ''secret'' ''book.epub'')
       \<lparr>body_len := 52428801, body := FormData 52428801 [upload_part ''book.epub'']\<rparr>) \<and>
   status (fst (uploadHandler (quiet_env example_time) empty_world
      ((post_upload ''secret'' ''book.epub'')
         \<lparr>body_len := 52428801, body := FormData 52428801 [upload_part ''book.epub'']\<rparr>)
      ''secret'')) = 400 \<and>
   files (snd (uploadHandler (quiet_env example_time) empty_world
      ((post_upload ''secret'' ''book.epub'')
         \<lparr>body_len := 52428801, body := FormData 52428801 [upload_part ''book.epub'']\<rparr>)
      ''secret'')) = files empty_world \<and>
   status (fst (uploadHandler (quiet_env example_time) empty_world
      ((post_upload ''secret'' ''book.epub'')\<lparr>body_len := 52428801, body := Invalid\<rparr>)
      ''secret'')) = 400"
  using oversized_form_rejected [of
      "(post_upload ''secret'' ''book.epub'')
         \<lparr>body_len := 52428801, body := FormData 52428801 [upload_part ''book.epub'']\<rparr>"
      "''secret''" "quiet_env example_time" empty_world]
    oversized_form_rejected [of
      "(post_upload ''secret'' ''book.epub'')\<lparr>body_len := 52428801, body := Invalid\<rparr>"
      "''secret''" "quiet_env example_time" empty_world]
  by (simp add: post_upload_def MethodPost_def Get_def MAX_FILE_SIZE_value wf_request_def
      upload_part_def length_example_content)

text \<open>
  C5, as stated, fails for a declared file name that ends in a separator: the decoder
  hands the handler the last element of the declared name, so the file declared as
  \<^verbatim>\<open>book.epub/\<close>, a name that does not end in \<^verbatim>\<open>.epub\<close>, reaches the handler as
  \<^verbatim>\<open>book.epub\<close>, passes the check and is stored with 200.
\<close>

theorem based_name_accepted_counterexample:
  "Method (post_upload ''secret'' ''book.epub/'') = MethodPost \<and>
   Get (query (post_upload ''secret'' ''book.epub/'')) ''api_key'' = ''secret'' \<and>
   body (post_upload ''secret'' ''book.epub/'') = FormData 300 [upload_part ''book.epub/''] \<and>
   FormName (upload_part ''book.epub/'') = ''epub'' \<and>
   declared_filename (upload_part ''book.epub/'') = ''book.epub/'' \<and>
   \<not> HasSuffix (ToLower ''book.epub/'') ''.epub'' \<and>
   status (fst (uploadHandler (quiet_env example_time) empty_world
      (post_upload ''secret'' ''book.epub/'') ''secret'')) = 200 \<and>
   files (snd (uploadHandler (quiet_env example_time) empty_world
      (post_upload ''secret'' ''book.epub/'') ''secret''))
     ''/app/uploads/20240102_030405_book.epub'' = Some example_content"
proof -
  have form: "ReadForm [upload_part ''book.epub/''] = [upload_of ''book.epub'']"
    using ReadForm_upload_part [of "''book.epub/''"] by (simp add: Base_book_slash)
  have run: "uploadHandler (quiet_env example_time) empty_world
      (post_upload ''secret'' ''book.epub/'') ''secret'' =
    (\<lparr>status = 200, content_type = ''application/json'',
      payload = success_payload (safeFilename example_time ''book.epub'') (length example_content)\<rparr>,
     empty_world\<lparr>body_decoded := True,
       files := (files empty_world)(destPath example_time ''book.epub'' \<mapsto> example_content),
       log := log empty_world @
         [LogUploaded (safeFilename example_time ''book.epub'') (length example_content)]\<rparr>)"
    using uploadHandler_stored [of "post_upload ''secret'' ''book.epub/''" "''secret''" 300
        "[upload_part ''book.epub/'']" "upload_of ''book.epub''" "quiet_env example_time" empty_world]
    by (simp add: example_defs form MAX_FILE_SIZE_value copy_breaks_def epub_book)
  have ext: "\<not> HasSuffix (ToLower ''book.epub/'') ''.epub''"
    by (simp add: HasSuffix_def ToLower_def lower_char_def)
  have part: "FormName (upload_part ''book.epub/'') = ''epub''"
    "declared_filename (upload_part ''book.epub/'') = ''book.epub/''"
    by (simp_all add: upload_part_def)
  from run ext part show ?thesis
    by (simp add: post_upload_def MethodPost_def Get_def destPath_book)
qed

text \<open>
  C5, amended. The file name the handler checks is \<^verbatim>\<open>header.Filename\<close>, the last path
  element (\<^verbatim>\<open>filepath.Base\<close>) of the name declared by the part the file came in. An
  authenticated POST for which that name, in lower case, does not end in \<^verbatim>\<open>.epub\<close>
  gets 400, whatever the content of the file, and no file is created or changed.
\<close>

theorem wrong_extension_rejected:
  assumes "Method r = MethodPost"
    and "Get (query r) ''api_key'' = apiKey"
    and "body r = FormData n ps"
    and "FormFile (ReadForm ps) ''epub'' = Some h"
    and "\<not> HasSuffix (ToLower (Filename h)) ''.epub''"
  shows "(\<exists>p \<in> set ps. FormName p = ''epub'' \<and> declared_filename p \<noteq> [] \<and>
      Filename h = Base (declared_filename p) \<and> content h = part_content p) \<and>
    status (fst (uploadHandler e w r apiKey)) = 400 \<and>
    files (snd (uploadHandler e w r apiKey)) = files w"
  using assms FormFile_ReadForm [OF assms(4)]
  by (simp add: uploadHandler_def ParseMultipartForm_def http_Error_def StatusBadRequest_def)

theorem wrong_extension_rejected_witness:
  "\<not> HasSuffix (ToLower (Base ''book.epub/notes.txt'')) ''.epub'' \<and>
   status (fst (uploadHandler (quiet_env example_time) empty_world
      (post_upload ''secret'' ''book.epub/notes.txt'') ''secret'')) = 400 \<and>
   files (snd (uploadHandler (quiet_env example_time) empty_world
      (post_upload ''secret'' ''book.epub/notes.txt'') ''secret'')) = files empty_world"
proof -
  have base: "Base ''book.epub/notes.txt'' = ''notes.txt''"
    by (simp add: Base_def is_sep_def)
  have form: "ReadForm [upload_part ''book.epub/notes.txt''] = [upload_of ''notes.txt'']"
    using ReadForm_upload_part [of "''book.epub/notes.txt''"] by (simp add: base)
  have ext: "\<not> HasSuffix (ToLower ''notes.txt'') ''.epub''"
    by (simp add: HasSuffix_def ToLower_def lower_char_def)
  from wrong_extension_rejected [of "post_upload ''secret'' ''book.epub/notes.txt''" "''secret''"
      300 "[upload_part ''book.epub/notes.txt'']" "upload_of ''notes.txt''"
      "quiet_env example_time" empty_world] ext
  show ?thesis
    by (simp add: example_defs form base)
qed

text \<open>
  C6. For every declared file name that reaches the name derivation (it passed the
  extension check), with or without directory components: the stored name is the time
  stamp, an underscore and the last element of the declared name; it contains no
  separator and is none of the empty name, \<^verbatim>\<open>.\<close> and \<^verbatim>\<open>..\<close>; and the destination
  path is the upload root, a separator and the stored name, so it lies directly inside
  the root.
\<close>

theorem traversal_name_stays_inside:
  assumes "HasSuffix (ToLower f) ''.epub''"
  shows "safeFilename t f = Format t @ ''_'' @ last (split_slash f) \<and>
    CHR ''/'' \<notin> set (safeFilename t f) \<and>
    safeFilename t f \<notin> {[], ''.'', ''..''} \<and>
    destPath t f = UPLOAD_DIR @ ''/'' @ safeFilename t f"
proof -
  have "safeFilename t f = Format t @ ''_'' @ last (split_slash f)"
    using Base_epub(1) [OF assms] by (simp add: safeFilename_def)
  moreover have "safeFilename t f \<notin> {[], ''.'', ''..''}"
    using safeFilename_marks [of t f] by auto
  ultimately show ?thesis
    using destPath_epub [OF assms, of t] by simp
qed

theorem traversal_name_stays_inside_witness:
  "HasSuffix (ToLower ''../../etc/passwd.epub'') ''.epub'' \<and>
   safeFilename example_time ''../../etc/passwd.epub'' = ''20240102_030405_passwd.epub'' \<and>
   destPath example_time ''../../etc/passwd.epub'' = ''/app/uploads/20240102_030405_passwd.epub''"
proof -
  have ext: "HasSuffix (ToLower ''../../etc/passwd.epub'') ''.epub''"
    by (simp add: HasSuffix_def ToLower_def lower_char_def)
  from traversal_name_stays_inside [OF ext, of example_time] ext show ?thesis
    by (simp add: Format_example_time UPLOAD_DIR_def is_sep_def)
qed

text \<open>
  C7. A request whose method is not POST gets 405 and leaves the world as it was: no
  file is created and the body is not handed to the decoder. The outcome is the same for
  any other query, body and configured key, so neither the credential nor the body is
  looked at.
\<close>

theorem non_post_rejected:
  assumes "Method r \<noteq> MethodPost"
  shows "status (fst (uploadHandler e w r apiKey)) = 405 \<and>
    snd (uploadHandler e w r apiKey) = w \<and>
    uploadHandler e w (r\<lparr>query := q, body_len := l, body := b\<rparr>) otherKey =
      uploadHandler e w r apiKey"
  using assms by (simp add: uploadHandler_def http_Error_def StatusMethodNotAllowed_def)

theorem non_post_rejected_witness:
  "status (fst (uploadHandler (quiet_env example_time) empty_world
      ((post_upload ''secret'' ''book.epub'')\<lparr>Method := ''GET''\<rparr>) ''secret'')) = 405 \<and>
   snd (uploadHandler (quiet_env example_time) empty_world
      ((post_upload ''secret'' ''book.epub'')\<lparr>Method := ''GET''\<rparr>) ''secret'') = empty_world"
  using non_post_rejected [of "(post_upload ''secret'' ''book.epub'')\<lparr>Method := ''GET''\<rparr>"
      "quiet_env example_time" empty_world "''secret''"]
  by (simp add: post_upload_def MethodPost_def)

text \<open>
  C8. The success response inserts the stored name into the JSON text as it is. For the
  declared name \<^verbatim>\<open>a"b.epub\<close>, which passes the extension check, the upload succeeds
  with 200 and the payload is not of the shape
  \<^verbatim>\<open>{"status": "success", "filename": <string>, "size": <number>}\<close>: the quote in the name
  ends the JSON string early. For the name \<^verbatim>\<open>book.epub\<close> the payload is of that shape.
\<close>

theorem quoted_name_breaks_json:
  "HasSuffix (ToLower quoted_name) ''.epub'' \<and>
   status (fst (uploadHandler (quiet_env example_time) empty_world
      (post_upload ''secret'' quoted_name) ''secret'')) = 200 \<and>
   payload (fst (uploadHandler (quiet_env example_time) empty_world
      (post_upload ''secret'' quoted_name) ''secret'')) =
      success_payload (''20240102_030405_'' @ quoted_name) 3 \<and>
   \<not> is_success_json (success_payload (''20240102_030405_'' @ quoted_name) 3) \<and>
   is_success_json (success_payload ''20240102_030405_book.epub'' 3)"
proof -
  have ext: "HasSuffix (ToLower quoted_name) ''.epub''"
    by (simp add: quoted_name_def HasSuffix_def ToLower_def lower_char_def)
  have form: "ReadForm [upload_part quoted_name] = [upload_of quoted_name]"
    using ReadForm_upload_part [of quoted_name] by (simp add: Base_quoted) (simp add: quoted_name_def)
  have "uploadHandler (quiet_env example_time) empty_world
      (post_upload ''secret'' quoted_name) ''secret'' =
    (\<lparr>status = 200, content_type = ''application/json'',
      payload = success_payload (safeFilename example_time quoted_name) (length example_content)\<rparr>,
     empty_world\<lparr>body_decoded := True,
       files := (files empty_world)(destPath example_time quoted_name \<mapsto> example_content),
       log := log empty_world @
         [LogUploaded (safeFilename example_time quoted_name) (length example_content)]\<rparr>)"
    using uploadHandler_stored [of "post_upload ''secret'' quoted_name" "''secret''" 300
        "[upload_part quoted_name]" "upload_of quoted_name" "quiet_env example_time" empty_world] ext
    by (simp add: example_defs form MAX_FILE_SIZE_value copy_breaks_def)
  moreover have "safeFilename example_time quoted_name = ''20240102_030405_'' @ quoted_name"
    by (simp add: safeFilename_def Format_example_time Base_quoted)
  moreover have "\<not> is_success_json (success_payload (''20240102_030405_'' @ quoted_name) 3)"
    by (simp add: is_success_json_def success_payload_def quoted_name_def strip_prefix_def
        itoa_small digit_char_def)
  moreover have "is_success_json (success_payload ''20240102_030405_book.epub'' 3)"
    by (simp add: is_success_json_def success_payload_def strip_prefix_def
        itoa_small digit_char_def json_number_def is_digit_def)
  ultimately show ?thesis
    using ext by (simp add: length_example_content)
qed

text \<open>
  C9. Two successful uploads of the same content, one after the other, at clock readings
  that differ: the two stored names are distinct, the two destination paths are distinct,
  and after the second upload both paths hold exactly the uploaded content.
\<close>

theorem distinct_seconds_distinct_artifacts:
  assumes "uploadHandler e1 w0 r1 apiKey = (resp1, w1)"
    and "uploadHandler e2 w1 r2 apiKey = (resp2, w2)"
    and "status resp1 = 200" and "status resp2 = 200"
    and "body r1 = FormData n1 ps1" and "FormFile (ReadForm ps1) ''epub'' = Some h1"
    and "body r2 = FormData n2 ps2" and "FormFile (ReadForm ps2) ''epub'' = Some h2"
    and "content h1 = c" and "content h2 = c"
    and "valid_time (now e1)" and "valid_time (now e2)" and "now e1 \<noteq> now e2"
  shows "safeFilename (now e1) (Filename h1) \<noteq> safeFilename (now e2) (Filename h2) \<and>
    destPath (now e1) (Filename h1) \<noteq> destPath (now e2) (Filename h2) \<and>
    files w2 (destPath (now e1) (Filename h1)) = Some c \<and>
    files w2 (destPath (now e2) (Filename h2)) = Some c"
proof -
  let ?p1 = "destPath (now e1) (Filename h1)" and ?p2 = "destPath (now e2) (Filename h2)"
  have ok1: "Method r1 = MethodPost \<and> Get (query r1) ''api_key'' = apiKey \<and> \<not> query_error r1 \<and>
      n1 \<le> MAX_FILE_SIZE \<and> HasSuffix (ToLower (Filename h1)) ''.epub'' \<and>
      \<not> create_fails e1 ?p1 \<and> \<not> copy_breaks e1 (content h1)"
    using uploadHandler_200 [of e1 w0 r1 apiKey n1 ps1 h1] assms(1,3,5,6) by simp
  have ok2: "Method r2 = MethodPost \<and> Get (query r2) ''api_key'' = apiKey \<and> \<not> query_error r2 \<and>
      n2 \<le> MAX_FILE_SIZE \<and> HasSuffix (ToLower (Filename h2)) ''.epub'' \<and>
      \<not> create_fails e2 ?p2 \<and> \<not> copy_breaks e2 (content h2)"
    using uploadHandler_200 [of e2 w1 r2 apiKey n2 ps2 h2] assms(2,4,7,8) by simp
  have names: "safeFilename (now e1) (Filename h1) \<noteq> safeFilename (now e2) (Filename h2)"
    using assms(11-13) by (rule safeFilename_differs)
  have paths: "?p1 \<noteq> ?p2"
    using names destPath_epub(1) [of "Filename h1" "now e1"] destPath_epub(1) [of "Filename h2" "now e2"]
      ok1 ok2 by simp
  have f1: "files w1 ?p1 = Some c"
    using uploadHandler_stored [of r1 apiKey n1 ps1 h1 e1 w0] ok1 assms(1,5,6,9) by auto
  have w2: "files w2 = (files w1)(?p2 \<mapsto> c)"
    using uploadHandler_stored [of r2 apiKey n2 ps2 h2 e2 w1] ok2 assms(2,7,8,10) by auto
  from names paths f1 w2 show ?thesis by simp
qed

theorem distinct_seconds_distinct_artifacts_witness:
  "now (quiet_env example_time) \<noteq> now (quiet_env later_time) \<and>
   ''/app/uploads/20240102_030405_book.epub'' \<noteq> ''/app/uploads/20240102_030406_book.epub'' \<and>
   files (snd (uploadHandler (quiet_env later_time)
       (snd (uploadHandler (quiet_env example_time) empty_world
          (post_upload ''secret'' ''book.epub'') ''secret''))
       (post_upload ''secret'' ''book.epub'') ''secret''))
     ''/app/uploads/20240102_030405_book.epub'' = Some example_content \<and>
   files (snd (uploadHandler (quiet_env later_time)
       (snd (uploadHandler (quiet_env example_time) empty_world
          (post_upload ''secret'' ''book.epub'') ''secret''))
       (post_upload ''secret'' ''book.epub'') ''secret''))
     ''/app/uploads/20240102_030406_book.epub'' = Some example_content"
proof -
  let ?r = "post_upload ''secret'' ''book.epub''"
  let ?ps = "[upload_part ''book.epub'']"
  let ?h = "upload_of ''book.epub''"
  let ?run1 = "uploadHandler (quiet_env example_time) empty_world ?r ''secret''"
  let ?run2 = "uploadHandler (quiet_env later_time) (snd ?run1) ?r ''secret''"
  have ext: "HasSuffix (ToLower (Filename ?h)) ''.epub''"
    by (simp add: upload_of_def epub_book)
  have s1: "status (fst ?run1) = 200"
    using uploadHandler_stored [of ?r "''secret''" 300 ?ps ?h "quiet_env example_time" empty_world] ext
    by (simp add: example_defs form_book MAX_FILE_SIZE_value copy_breaks_def)
  have s2: "status (fst ?run2) = 200"
    using uploadHandler_stored [of ?r "''secret''" 300 ?ps ?h "quiet_env later_time" "snd ?run1"] ext
    by (simp add: example_defs form_book MAX_FILE_SIZE_value copy_breaks_def)
  have differ: "example_time \<noteq> later_time"
    by (simp add: example_time_def later_time_def)
  from distinct_seconds_distinct_artifacts [of "quiet_env example_time" empty_world ?r "''secret''"
      "fst ?run1" "snd ?run1" "quiet_env later_time" ?r "fst ?run2" "snd ?run2"
      300 ?ps ?h 300 ?ps ?h example_content] s1 s2 differ
  show ?thesis
    by (simp add: example_defs form_book valid_example_time valid_later_time destPath_book
        destPath_book_later)
qed

text \<open>
  C10. A valid upload whose declared file name is exactly \<^verbatim>\<open>.epub\<close> (it reaches the
  handler unchanged), on storage without a fault: the extension check passes, the
  response is 200, it reports the time stamp followed by \<^verbatim>\<open>_.epub\<close> as the file name,
  and the content is stored under that name in \<^verbatim>\<open>/app/uploads\<close>.
\<close>

theorem bare_extension_accepted:
  assumes "Method r = MethodPost"
    and "Get (query r) ''api_key'' = apiKey"
    and "\<not> query_error r"
    and "body r = FormData n ps" and "n \<le> MAX_FILE_SIZE"
    and "FormFile (ReadForm ps) ''epub'' = Some h" and "Filename h = ''.epub''"
    and "\<not> create_fails e (''/app/uploads/'' @ Format (now e) @ ''_.epub'')"
    and "\<not> copy_breaks e (content h)"
  shows \<open>HasSuffix (ToLower (Filename h)) ''.epub'' \<and>
    status (fst (uploadHandler e w r apiKey)) = 200 \<and>
    payload (fst (uploadHandler e w r apiKey)) =
      ''{"status": "success", "filename": "'' @ Format (now e) @ ''_.epub'' @
      ''", "size": '' @ itoa (length (content h)) @ ''}'' \<and>
    files (snd (uploadHandler e w r apiKey)) (''/app/uploads/'' @ Format (now e) @ ''_.epub'')
      = Some (content h)\<close>
proof -
  have ext: "HasSuffix (ToLower (Filename h)) ''.epub''"
    using assms(7) epub_bare by simp
  have name: "safeFilename (now e) (Filename h) = Format (now e) @ ''_.epub''"
    using assms(7) by (simp add: safeFilename_def Base_bare)
  have path: "destPath (now e) (Filename h) = ''/app/uploads/'' @ Format (now e) @ ''_.epub''"
    using destPath_epub(1) [OF ext, of "now e"] name by (simp add: UPLOAD_DIR_def)
  have "\<not> create_fails e (destPath (now e) (Filename h))"
    using assms(8) path by simp
  from uploadHandler_stored [OF assms(1-6) ext this assms(9), of w]
  show ?thesis
    using name path ext by (simp add: success_payload_def)
qed

theorem bare_extension_accepted_witness:
  \<open>declared_filename (upload_part ''.epub'') = ''.epub'' \<and>
   status (fst (uploadHandler (quiet_env example_time) empty_world
      (post_upload ''secret'' ''.epub'') ''secret'')) = 200 \<and>
   payload (fst (uploadHandler (quiet_env example_time) empty_world
      (post_upload ''secret'' ''.epub'') ''secret'')) =
      ''{"status": "success", "filename": "20240102_030405_.epub", "size": 3}'' \<and>
   files (snd (uploadHandler (quiet_env example_time) empty_world
      (post_upload ''secret'' ''.epub'') ''secret''))
      ''/app/uploads/20240102_030405_.epub'' = Some example_content\<close>
proof -
  have form: "ReadForm [upload_part ''.epub''] = [upload_of ''.epub'']"
    using ReadForm_upload_part [of "''.epub''"] by (simp add: Base_bare)
  have declared: "declared_filename (upload_part ''.epub'') = ''.epub''"
    by (simp add: upload_part_def)
  from bare_extension_accepted [of "post_upload ''secret'' ''.epub''" "''secret''" 300
      "[upload_part ''.epub'']" "upload_of ''.epub''" "quiet_env example_time" empty_world] declared
  show ?thesis
    by (simp add: example_defs form MAX_FILE_SIZE_value copy_breaks_def
        Format_example_time length_example_content itoa_small digit_char_def)
qed

end
